theory Spec2Isabelle
  imports Main "HOL-Library.Sublist" "HOL-Library.Word" "HOL-Library.List_Lexorder"
begin

unbundle bit_operations_syntax

section \<open>Strings\<close>

text \<open>
  A Python \<^verbatim>\<open>str\<close> is a sequence of Unicode code points. It is modelled as a list of
  natural numbers, one per code point, so that the non-ASCII markers of the program and
  the Unicode white space of \<^verbatim>\<open>str.strip\<close> and of the pattern \<^verbatim>\<open>\s\<close> are single
  elements. \<open>lit\<close> turns an ASCII literal into such a list.
\<close>

type_synonym ustr = "nat list"

definition lit :: "string \<Rightarrow> ustr" where
  "lit s = map of_char s"

text \<open>
  The code points for which \<^verbatim>\<open>str.isspace()\<close> holds; the pattern \<^verbatim>\<open>\s\<close> of
  \<^verbatim>\<open>re\<close> on a \<^verbatim>\<open>str\<close> matches the same set.
\<close>

definition isspace :: "nat \<Rightarrow> bool" where
  "isspace c \<longleftrightarrow>
     (9 \<le> c \<and> c \<le> 13) \<or> (28 \<le> c \<and> c \<le> 32) \<or> c = 133 \<or> c = 160 \<or> c = 5760 \<or>
     (8192 \<le> c \<and> c \<le> 8202) \<or> c = 8232 \<or> c = 8233 \<or> c = 8239 \<or> c = 8287 \<or> c = 12288"

text \<open>\<^verbatim>\<open>s.strip()\<close>: white space removed at the left end and at the right end.\<close>

definition lstrip :: "ustr \<Rightarrow> ustr" where
  "lstrip s = dropWhile isspace s"

definition rstrip :: "ustr \<Rightarrow> ustr" where
  "rstrip s = rev (dropWhile isspace (rev s))"

definition strip :: "ustr \<Rightarrow> ustr" where
  "strip s = rstrip (lstrip s)"

text \<open>
  \<^verbatim>\<open>re.sub(r"\s+", " ", s)\<close>: scanning from the left, each maximal run of white space is
  replaced by one space (code point 32).
\<close>

function re_sub_ws :: "ustr \<Rightarrow> ustr" where
  "re_sub_ws [] = []"
| "re_sub_ws (c # cs) =
     (if isspace c then 32 # re_sub_ws (dropWhile isspace cs) else c # re_sub_ws cs)"
  by pat_completeness auto
termination
  by (relation "measure length") (auto simp: length_dropWhile_le less_Suc_eq_le)

text \<open>
  \<^verbatim>\<open>def norm_text(s): return re.sub(r"\s+", " ", (s or "").strip())\<close>
  The argument is a \<^verbatim>\<open>str\<close> or \<^verbatim>\<open>None\<close>.
\<close>

definition norm_text :: "ustr option \<Rightarrow> ustr" where
  "norm_text s = re_sub_ws (strip (case s of None \<Rightarrow> [] | Some x \<Rightarrow> x))"




text \<open>\<^verbatim>\<open>sub in s\<close> on strings.\<close>

fun contains :: "ustr \<Rightarrow> ustr \<Rightarrow> bool" where
  "contains sub [] = (sub = [])"
| "contains sub (c # cs) = (prefix sub (c # cs) \<or> contains sub cs)"

text \<open>\<^verbatim>\<open>sep.join(xs)\<close>.\<close>

fun join :: "ustr \<Rightarrow> ustr list \<Rightarrow> ustr" where
  "join sep [] = []"
| "join sep [x] = x"
| "join sep (x # y # ys) = x @ sep @ join sep (y # ys)"

section \<open>Library functions taken as parameters\<close>

text \<open>
  Errors are values. \<open>ValueError\<close> is what \<^verbatim>\<open>urllib.parse.urljoin\<close> and \<^verbatim>\<open>int\<close>
  raise, \<open>UnicodeEncodeError\<close> what \<^verbatim>\<open>str.encode\<close> raises; the others stand for the
  failures of the network and of the file system.
\<close>

datatype error = ValueError | UnicodeEncodeError | RequestException | OSError | JSONDecodeError

text \<open>
  Three functions of the Python library are not part of the repository and are taken as
  parameters: \<^verbatim>\<open>urljoin\<close> (which raises \<^verbatim>\<open>ValueError\<close> on some references), the
  character class \<^verbatim>\<open>\d\<close> of \<^verbatim>\<open>re\<close> (the Unicode decimal digits) and \<^verbatim>\<open>int\<close> on a
  string.
\<close>

record pylib =
  urljoin :: "ustr \<Rightarrow> ustr \<Rightarrow> error + ustr"
  isdecimal :: "nat \<Rightarrow> bool"
  int_of_str :: "ustr \<Rightarrow> error + int"

text \<open>
  \<^verbatim>\<open>re.search(r"(\d{4}-\d{2}-\d{2})", t)\<close>: the leftmost position where four digits, a
  hyphen, two digits, a hyphen and two digits follow each other; \<^verbatim>\<open>m.group(1)\<close> is that
  substring of ten characters, \<open>None\<close> stands for no match.
\<close>

definition date_at :: "pylib \<Rightarrow> ustr \<Rightarrow> bool" where
  "date_at L s \<longleftrightarrow>
     10 \<le> length s \<and>
     isdecimal L (s ! 0) \<and> isdecimal L (s ! 1) \<and> isdecimal L (s ! 2) \<and> isdecimal L (s ! 3) \<and>
     s ! 4 = 45 \<and> isdecimal L (s ! 5) \<and> isdecimal L (s ! 6) \<and>
     s ! 7 = 45 \<and> isdecimal L (s ! 8) \<and> isdecimal L (s ! 9)"

fun date_search :: "pylib \<Rightarrow> ustr \<Rightarrow> ustr option" where
  "date_search L [] = None"
| "date_search L (c # cs) =
     (if date_at L (c # cs) then Some (take 10 (c # cs)) else date_search L cs)"

section \<open>The parsed document\<close>

text \<open>
  \<^verbatim>\<open>BeautifulSoup(html, "lxml")\<close> is the parser of a library; the model starts from the
  tree it returns. A node is a tag with its name, its attributes and its children, or a
  string. The root is the \<^verbatim>\<open>BeautifulSoup\<close> object itself, a tag named
  \<^verbatim>\<open>[document]\<close> without a parent. Comments, and the text of scripts and style sheets,
  are left out: \<^verbatim>\<open>find_all\<close> returns tags only, and \<^verbatim>\<open>get_text\<close> skips them in the
  tags the program asks.
\<close>

datatype node = Tag ustr "(ustr \<times> ustr) list" "node list" | NavigableString ustr

text \<open>\<^verbatim>\<open>tag.descendants\<close>: every node below the tag, in document order.\<close>

fun descendants :: "node \<Rightarrow> node list" where
  "descendants (Tag n at cs) = concat (map (\<lambda>c. c # descendants c) cs)"
| "descendants (NavigableString s) = []"

text \<open>
  The same walk, each node paired with its ancestors, nearest first
  (\<^verbatim>\<open>node.parents\<close>); \<open>anc\<close> are the ancestors of the starting tag.
\<close>

fun descendants_in :: "node list \<Rightarrow> node \<Rightarrow> (node \<times> node list) list" where
  "descendants_in anc (Tag n at cs) =
     concat (map (\<lambda>c. (c, Tag n at cs # anc) # descendants_in (Tag n at cs # anc) c) cs)"
| "descendants_in anc (NavigableString s) = []"

fun named :: "ustr list \<Rightarrow> node \<Rightarrow> bool" where
  "named names (Tag n at cs) = (n \<in> set names)"
| "named names (NavigableString s) = False"

text \<open>\<^verbatim>\<open>tag.find_all(names)\<close> and \<^verbatim>\<open>tag.find_all(names, limit=k)\<close>.\<close>

definition find_all :: "ustr list \<Rightarrow> node \<Rightarrow> node list" where
  "find_all names nd = filter (named names) (descendants nd)"

definition find_all_limit :: "ustr list \<Rightarrow> nat \<Rightarrow> node \<Rightarrow> node list" where
  "find_all_limit names k nd = take k (find_all names nd)"

text \<open>\<^verbatim>\<open>soup.find_all(names)\<close>, keeping the ancestors of each result.\<close>

definition find_all_in :: "ustr list \<Rightarrow> node \<Rightarrow> (node \<times> node list) list" where
  "find_all_in names nd = filter (\<lambda>(x, anc). named names x) (descendants_in [] nd)"

text \<open>\<^verbatim>\<open>tag.find(name)\<close>: the first result of \<^verbatim>\<open>find_all\<close>, or \<^verbatim>\<open>None\<close>.\<close>

definition find_tag :: "ustr \<Rightarrow> node \<Rightarrow> node option" where
  "find_tag n nd = (case find_all [n] nd of [] \<Rightarrow> None | x # xs \<Rightarrow> Some x)"

text \<open>\<^verbatim>\<open>tag.get(key)\<close> and \<^verbatim>\<open>tag.name\<close>.\<close>

fun attr_get :: "node \<Rightarrow> ustr \<Rightarrow> ustr option" where
  "attr_get (Tag n at cs) k = map_of at k"
| "attr_get (NavigableString s) k = None"

fun name_of :: "node \<Rightarrow> ustr option" where
  "name_of (Tag n at cs) = Some n"
| "name_of (NavigableString s) = None"

fun string_of :: "node \<Rightarrow> ustr list" where
  "string_of (NavigableString s) = [s]"
| "string_of (Tag n at cs) = []"

text \<open>\<^verbatim>\<open>tag.get_text(sep)\<close>: the strings below the tag, joined by \<open>sep\<close>.\<close>

fun get_text :: "ustr \<Rightarrow> node \<Rightarrow> ustr" where
  "get_text sep (Tag n at cs) = join sep (concat (map string_of (descendants (Tag n at cs))))"
| "get_text sep (NavigableString s) = s"

section \<open>Extraction\<close>

record item =
  title :: ustr
  date :: ustr
  href :: ustr

text \<open>The markers of the program, as code points.\<close>

definition kw_download :: ustr where "kw_download = [19979, 36733]"
definition kw_report :: ustr where "kw_report = [25253, 21578]"
definition kw_quarter :: ustr where "kw_quarter = [23395, 24230]"
definition kw_half_year :: ustr where "kw_half_year = [21322, 24180, 24230]"
definition kw_year :: ustr where "kw_year = [24180, 24230]"
definition no_title :: ustr where "no_title = [26410, 35782, 21035, 26631, 39064]"

text \<open>Truth of a value that is a \<^verbatim>\<open>str\<close> or \<^verbatim>\<open>None\<close>.\<close>

fun truthy :: "ustr option \<Rightarrow> bool" where
  "truthy None = False"
| "truthy (Some s) = (s \<noteq> [])"

text \<open>\<^verbatim>\<open>x or d\<close> for such a value.\<close>

definition or_else :: "ustr option \<Rightarrow> ustr \<Rightarrow> ustr" where
  "or_else x d = (case x of None \<Rightarrow> d | Some s \<Rightarrow> if s = [] then d else s)"

text \<open>
  \<^verbatim>\<open>
  def near_text(node):
      texts = []
      for p in [node, node.parent] + list(node.parents)[:2]:
          if not p:
              continue
          texts.append(norm_text(p.get_text(" ")))
      return " ".join(texts)
  \<close>
  A tag is always true in Python, so only \<^verbatim>\<open>None\<close> is skipped.
\<close>

definition parent_of :: "node list \<Rightarrow> node option" where
  "parent_of anc = (case anc of [] \<Rightarrow> None | p # ps \<Rightarrow> Some p)"

text \<open>The members of a list that are not \<^verbatim>\<open>None\<close>.\<close>

fun present :: "'a option list \<Rightarrow> 'a list" where
  "present [] = []"
| "present (None # xs) = present xs"
| "present (Some x # xs) = x # present xs"

definition near_text :: "node \<times> node list \<Rightarrow> ustr" where
  "near_text e =
     (case e of (nd, anc) \<Rightarrow>
        join [32]
          (map (\<lambda>p. norm_text (Some (get_text [32] p)))
             (present ([Some nd, parent_of anc] @ map Some (take 2 anc)))))"

text \<open>
  The title and date search of one anchor. The state of the two nested loops is the pair
  \<open>(title, date_str)\<close>, both \<^verbatim>\<open>None\<close> at the start.
  \<^verbatim>\<open>
  for n in cand:
      t = norm_text(n.get_text())
      if (not title) and ("..." in t or "..." in t or "..." in t or "..." in t):
          title = t
      if not date_str:
          m = re.search(r"(\d{4}-\d{2}-\d{2})", t)
          if m:
              date_str = m.group(1)
      if title and date_str:
          break
  \<close>
\<close>

definition is_title :: "ustr \<Rightarrow> bool" where
  "is_title t \<longleftrightarrow>
     contains kw_report t \<or> contains kw_quarter t \<or> contains kw_half_year t \<or> contains kw_year t"

definition look :: "pylib \<Rightarrow> node \<Rightarrow> ustr option \<times> ustr option \<Rightarrow> ustr option \<times> ustr option" where
  "look L n st =
     (case st of (ttl, dstr) \<Rightarrow>
        let t = norm_text (Some (get_text [] n));
            ttl' = (if \<not> truthy ttl \<and> is_title t then Some t else ttl);
            dstr' = (if \<not> truthy dstr
                     then (case date_search L t of Some d \<Rightarrow> Some d | None \<Rightarrow> dstr)
                     else dstr)
        in (ttl', dstr'))"

definition found :: "ustr option \<times> ustr option \<Rightarrow> bool" where
  "found st \<longleftrightarrow> truthy (fst st) \<and> truthy (snd st)"

fun scan_cand :: "pylib \<Rightarrow> node list \<Rightarrow> ustr option \<times> ustr option \<Rightarrow> ustr option \<times> ustr option" where
  "scan_cand L [] st = st"
| "scan_cand L (n # ns) st =
     (let st' = look L n st in if found st' then st' else scan_cand L ns st')"

text \<open>
  \<^verbatim>\<open>
  for up in [a, a.parent, a.parent.parent if a.parent else None]:
      if not up:
          continue
      cand = up.find_all(["h3","h4","a","p","span"], limit=8)
      for n in cand: ...
      if title and date_str:
          break
  \<close>
\<close>

definition cand_names :: "ustr list" where
  "cand_names = [lit ''h3'', lit ''h4'', lit ''a'', lit ''p'', lit ''span'']"

fun scan_up :: "pylib \<Rightarrow> node option list \<Rightarrow> ustr option \<times> ustr option \<Rightarrow> ustr option \<times> ustr option" where
  "scan_up L [] st = st"
| "scan_up L (None # ups) st = scan_up L ups st"
| "scan_up L (Some up # ups) st =
     (let st' = scan_cand L (find_all_limit cand_names 8 up) st
      in if found st' then st' else scan_up L ups st')"

definition grandparent_of :: "node list \<Rightarrow> node option" where
  "grandparent_of anc = (case parent_of anc of None \<Rightarrow> None | Some p \<Rightarrow> parent_of (tl anc))"

text \<open>
  \<^verbatim>\<open>
  if not date_str:
      big = near_text(a)
      m = re.search(r"(\d{4}-\d{2}-\d{2})", big)
      if m:
          date_str = m.group(1)
  \<close>
\<close>

definition date_fallback :: "pylib \<Rightarrow> node \<times> node list \<Rightarrow> ustr option \<Rightarrow> ustr option" where
  "date_fallback L e dstr =
     (if \<not> truthy dstr
      then (case date_search L (near_text e) of Some d \<Rightarrow> Some d | None \<Rightarrow> dstr)
      else dstr)"

text \<open>
  \<^verbatim>\<open>
  if not title:
      for h in soup.find_all(["h3","h4"]):
          t = norm_text(h.get_text())
          if "..." in t:
              title = t
              break
  \<close>
\<close>

fun first_report :: "node list \<Rightarrow> ustr option \<Rightarrow> ustr option" where
  "first_report [] ttl = ttl"
| "first_report (h # hs) ttl =
     (let t = norm_text (Some (get_text [] h))
      in if contains kw_report t then Some t else first_report hs ttl)"

definition title_fallback :: "node \<Rightarrow> ustr option \<Rightarrow> ustr option" where
  "title_fallback soup ttl =
     (if \<not> truthy ttl then first_report (find_all [lit ''h3'', lit ''h4''] soup) ttl else ttl)"

text \<open>The item built for an anchor whose reference resolved to \<open>h\<close>.\<close>

definition item_for :: "pylib \<Rightarrow> node \<Rightarrow> node \<times> node list \<Rightarrow> ustr \<Rightarrow> item" where
  "item_for L soup e h =
     (case e of (a, anc) \<Rightarrow>
        let st = scan_up L [Some a, parent_of anc, grandparent_of anc] (None, None);
            dstr = date_fallback L e (snd st);
            ttl = title_fallback soup (fst st)
        in \<lparr>title = or_else ttl no_title, date = or_else dstr [], href = h\<rparr>)"

text \<open>
  The loop over the candidate anchors, with the list \<open>items\<close> and the set \<open>seen\<close> as
  state. \<^verbatim>\<open>urljoin\<close> is called before the searches and its exception leaves the
  function.
  \<^verbatim>\<open>
  for a in anchors:
      href = a.get("href") or ""
      if not href:
          continue
      href = urljoin(base_url, href)
      ...
      if href in seen:
          continue
      seen.add(href)
      items.append({"title": title or "...", "date": date_str or "", "href": href})
  \<close>
\<close>

fun anchors_loop ::
  "pylib \<Rightarrow> node \<Rightarrow> ustr \<Rightarrow> (node \<times> node list) list \<Rightarrow> item list \<Rightarrow> ustr set \<Rightarrow> error + item list" where
  "anchors_loop L soup base_url [] items seen = Inr items"
| "anchors_loop L soup base_url (e # es) items seen =
     (let h = or_else (attr_get (fst e) (lit ''href'')) []
      in if h = [] then anchors_loop L soup base_url es items seen
         else (case urljoin L base_url h of
                 Inl err \<Rightarrow> Inl err
               | Inr h' \<Rightarrow>
                   (let it = item_for L soup e h'
                    in if h' \<in> seen then anchors_loop L soup base_url es items seen
                       else anchors_loop L soup base_url es (items @ [it]) (insert h' seen))))"

text \<open>
  \<^verbatim>\<open>anchors = [a for a in soup.find_all("a") if "..." in norm_text(a.get_text())]\<close>
\<close>

definition anchors :: "node \<Rightarrow> (node \<times> node list) list" where
  "anchors soup =
     filter (\<lambda>e. contains kw_download (norm_text (Some (get_text [] (fst e)))))
       (find_all_in [lit ''a''] soup)"

text \<open>
  The scan of the whole document, which runs when the anchors gave no item.
  \<^verbatim>\<open>
  for h in soup.find_all(["h3","h4","a"]):
      t = norm_text(h.get_text())
      if "..." in t:
          a = h if h.name == "a" else h.find("a")
          href = urljoin(base_url, a.get("href")) if a and a.get("href") else base_url
          m = re.search(r"(\d{4}-\d{2}-\d{2})", t)
          items.append({"title": t, "date": m.group(1) if m else "", "href": href})
  \<close>
\<close>

definition own_anchor :: "node \<Rightarrow> node option" where
  "own_anchor h = (if name_of h = Some (lit ''a'') then Some h else find_tag (lit ''a'') h)"

definition fallback_href :: "pylib \<Rightarrow> ustr \<Rightarrow> node \<Rightarrow> error + ustr" where
  "fallback_href L base_url h =
     (case own_anchor h of
        None \<Rightarrow> Inr base_url
      | Some a \<Rightarrow>
          (case attr_get a (lit ''href'') of
             None \<Rightarrow> Inr base_url
           | Some v \<Rightarrow> if v = [] then Inr base_url else urljoin L base_url v))"

fun fallback_loop :: "pylib \<Rightarrow> ustr \<Rightarrow> node list \<Rightarrow> item list \<Rightarrow> error + item list" where
  "fallback_loop L base_url [] items = Inr items"
| "fallback_loop L base_url (h # hs) items =
     (let t = norm_text (Some (get_text [] h))
      in if contains kw_report t
         then (case fallback_href L base_url h of
                 Inl err \<Rightarrow> Inl err
               | Inr h' \<Rightarrow>
                   fallback_loop L base_url hs
                     (items @ [\<lparr>title = t, date = or_else (date_search L t) [], href = h'\<rparr>]))
         else fallback_loop L base_url hs items)"

text \<open>
  \<^verbatim>\<open>items[:top_n]\<close> for an integer \<open>top_n\<close>: a negative bound counts from the end.
\<close>

definition slice_to :: "'a list \<Rightarrow> int \<Rightarrow> 'a list" where
  "slice_to xs n = (if 0 \<le> n then take (nat n) xs else take (nat (int (length xs) + n)) xs)"

definition extract_items :: "pylib \<Rightarrow> node \<Rightarrow> ustr \<Rightarrow> int \<Rightarrow> error + item list" where
  "extract_items L soup base_url top_n =
     (case anchors_loop L soup base_url (anchors soup) [] {} of
        Inl err \<Rightarrow> Inl err
      | Inr items \<Rightarrow>
          if items = []
          then (case fallback_loop L base_url
                       (find_all [lit ''h3'', lit ''h4'', lit ''a''] soup) items of
                  Inl err \<Rightarrow> Inl err
                | Inr items' \<Rightarrow> Inr (slice_to items' top_n))
          else Inr (slice_to items top_n))"


section \<open>Bytes, hashing and encoding\<close>

type_synonym byte = "8 word"

text \<open>
  \<^verbatim>\<open>s.encode("utf-8")\<close>. A surrogate (U+D800 to U+DFFF) cannot be encoded and raises
  \<^verbatim>\<open>UnicodeEncodeError\<close>; a number above U+10FFFF is not a code point of a \<^verbatim>\<open>str\<close>.
\<close>

definition utf8_char :: "nat \<Rightarrow> error + byte list" where
  "utf8_char c =
     (if c < 128 then Inr [of_nat c]
      else if c < 2048 then Inr [of_nat (192 + c div 64), of_nat (128 + c mod 64)]
      else if 55296 \<le> c \<and> c \<le> 57343 then Inl UnicodeEncodeError
      else if c < 65536
        then Inr [of_nat (224 + c div 4096), of_nat (128 + c div 64 mod 64), of_nat (128 + c mod 64)]
      else if c < 1114112
        then Inr [of_nat (240 + c div 262144), of_nat (128 + c div 4096 mod 64),
                  of_nat (128 + c div 64 mod 64), of_nat (128 + c mod 64)]
      else Inl UnicodeEncodeError)"

fun encode_utf8 :: "ustr \<Rightarrow> error + byte list" where
  "encode_utf8 [] = Inr []"
| "encode_utf8 (c # cs) =
     (case utf8_char c of
        Inl e \<Rightarrow> Inl e
      | Inr bs \<Rightarrow> (case encode_utf8 cs of Inl e \<Rightarrow> Inl e | Inr rest \<Rightarrow> Inr (bs @ rest)))"

text \<open>SHA-256 as in FIPS 180-4, which \<^verbatim>\<open>hashlib.sha256\<close> computes.\<close>

definition sha_k :: "32 word list" where
  "sha_k =
    [
     0x428A2F98, 0x71374491, 0xB5C0FBCF, 0xE9B5DBA5, 0x3956C25B, 0x59F111F1,
     0x923F82A4, 0xAB1C5ED5, 0xD807AA98, 0x12835B01, 0x243185BE, 0x550C7DC3,
     0x72BE5D74, 0x80DEB1FE, 0x9BDC06A7, 0xC19BF174, 0xE49B69C1, 0xEFBE4786,
     0x0FC19DC6, 0x240CA1CC, 0x2DE92C6F, 0x4A7484AA, 0x5CB0A9DC, 0x76F988DA,
     0x983E5152, 0xA831C66D, 0xB00327C8, 0xBF597FC7, 0xC6E00BF3, 0xD5A79147,
     0x06CA6351, 0x14292967, 0x27B70A85, 0x2E1B2138, 0x4D2C6DFC, 0x53380D13,
     0x650A7354, 0x766A0ABB, 0x81C2C92E, 0x92722C85, 0xA2BFE8A1, 0xA81A664B,
     0xC24B8B70, 0xC76C51A3, 0xD192E819, 0xD6990624, 0xF40E3585, 0x106AA070,
     0x19A4C116, 0x1E376C08, 0x2748774C, 0x34B0BCB5, 0x391C0CB3, 0x4ED8AA4A,
     0x5B9CCA4F, 0x682E6FF3, 0x748F82EE, 0x78A5636F, 0x84C87814, 0x8CC70208,
     0x90BEFFFA, 0xA4506CEB, 0xBEF9A3F7, 0xC67178F2]"

definition sha_h0 :: "32 word list" where
  "sha_h0 =
    [
     0x6A09E667, 0xBB67AE85, 0x3C6EF372, 0xA54FF53A, 0x510E527F, 0x9B05688C,
     0x1F83D9AB, 0x5BE0CD19]"

definition ch :: "32 word \<Rightarrow> 32 word \<Rightarrow> 32 word \<Rightarrow> 32 word" where
  "ch x y z = (x AND y) XOR (NOT x AND z)"

definition maj :: "32 word \<Rightarrow> 32 word \<Rightarrow> 32 word \<Rightarrow> 32 word" where
  "maj x y z = (x AND y) XOR (x AND z) XOR (y AND z)"

definition big_sigma0 :: "32 word \<Rightarrow> 32 word" where
  "big_sigma0 x = word_rotr 2 x XOR word_rotr 13 x XOR word_rotr 22 x"

definition big_sigma1 :: "32 word \<Rightarrow> 32 word" where
  "big_sigma1 x = word_rotr 6 x XOR word_rotr 11 x XOR word_rotr 25 x"

definition small_sigma0 :: "32 word \<Rightarrow> 32 word" where
  "small_sigma0 x = word_rotr 7 x XOR word_rotr 18 x XOR drop_bit 3 x"

definition small_sigma1 :: "32 word \<Rightarrow> 32 word" where
  "small_sigma1 x = word_rotr 17 x XOR word_rotr 19 x XOR drop_bit 10 x"

text \<open>Four bytes as a big-endian word, and back.\<close>

definition be32 :: "byte list \<Rightarrow> 32 word" where
  "be32 bs = foldl (\<lambda>w b. push_bit 8 w OR ucast b) 0 (take 4 bs)"

definition bytes_of32 :: "32 word \<Rightarrow> byte list" where
  "bytes_of32 w = [ucast (drop_bit 24 w), ucast (drop_bit 16 w), ucast (drop_bit 8 w), ucast w]"

fun chunks :: "nat \<Rightarrow> 'a list \<Rightarrow> 'a list list" where
  "chunks n [] = []"
| "chunks n (x # xs) =
     (if n = 0 then [x # xs] else take n (x # xs) # chunks n (drop n (x # xs)))"

text \<open>The message schedule: sixteen words of the block, extended to sixty-four.\<close>

fun extend :: "nat \<Rightarrow> 32 word list \<Rightarrow> 32 word list" where
  "extend 0 ws = ws"
| "extend (Suc k) ws =
     (let t = length ws
      in extend k (ws @ [small_sigma1 (ws ! (t - 2)) + ws ! (t - 7) +
                         small_sigma0 (ws ! (t - 15)) + ws ! (t - 16)]))"

definition schedule :: "byte list \<Rightarrow> 32 word list" where
  "schedule block = extend 48 (map be32 (chunks 4 block))"

text \<open>One round on the eight working variables \<open>[a, b, c, d, e, f, g, h]\<close>.\<close>

definition round :: "32 word list \<Rightarrow> 32 word \<times> 32 word \<Rightarrow> 32 word list" where
  "round vs kw =
     (let a = vs ! 0; b = vs ! 1; c = vs ! 2; d = vs ! 3;
          e = vs ! 4; f = vs ! 5; g = vs ! 6; h = vs ! 7;
          t1 = h + big_sigma1 e + ch e f g + fst kw + snd kw;
          t2 = big_sigma0 a + maj a b c
      in [t1 + t2, a, b, c, d + t1, e, f, g])"

definition compress :: "32 word list \<Rightarrow> byte list \<Rightarrow> 32 word list" where
  "compress hs block = map2 (+) hs (foldl round hs (zip sha_k (schedule block)))"

text \<open>Padding: the byte 0x80, zero bytes up to 56 modulo 64, the bit length on 8 bytes.\<close>

definition be64 :: "64 word \<Rightarrow> byte list" where
  "be64 w = map (\<lambda>i. ucast (drop_bit (8 * (7 - i)) w)) [0..<8]"

definition sha_pad :: "byte list \<Rightarrow> byte list" where
  "sha_pad m = m @ [128] @ replicate ((119 - length m mod 64) mod 64) 0 @ be64 (of_nat (8 * length m))"

definition sha256 :: "byte list \<Rightarrow> byte list" where
  "sha256 m = concat (map bytes_of32 (foldl compress sha_h0 (chunks 64 (sha_pad m))))"

text \<open>HMAC (RFC 2104) with SHA-256, block size 64: \<^verbatim>\<open>hmac.new(key, msg, sha256).digest()\<close>.\<close>

definition hmac_sha256 :: "byte list \<Rightarrow> byte list \<Rightarrow> byte list" where
  "hmac_sha256 key msg =
     (let k = (if 64 < length key then sha256 key else key);
          k' = k @ replicate (64 - length k) 0
      in sha256 (map (\<lambda>b. b XOR 92) k' @ sha256 (map (\<lambda>b. b XOR 54) k' @ msg)))"

text \<open>\<^verbatim>\<open>base64.b64encode(bs).decode("utf-8")\<close>, with the standard alphabet and padding.\<close>

definition b64_char :: "nat \<Rightarrow> nat" where
  "b64_char i =
     (if i < 26 then 65 + i else if i < 52 then 71 + i else if i < 62 then i - 4
      else if i = 62 then 43 else 47)"

fun b64encode :: "byte list \<Rightarrow> ustr" where
  "b64encode [] = []"
| "b64encode [a] =
     [b64_char (unat a div 4), b64_char (unat a mod 4 * 16), 61, 61]"
| "b64encode [a, b] =
     [b64_char (unat a div 4), b64_char (unat a mod 4 * 16 + unat b div 16),
      b64_char (unat b mod 16 * 4), 61]"
| "b64encode (a # b # c # rest) =
     [b64_char (unat a div 4), b64_char (unat a mod 4 * 16 + unat b div 16),
      b64_char (unat b mod 16 * 4 + unat c div 64), b64_char (unat c mod 64)] @ b64encode rest"



text \<open>The code points that \<^verbatim>\<open>encode("utf-8")\<close> accepts: all but the surrogates.\<close>

definition encodable :: "nat \<Rightarrow> bool" where
  "encodable c \<longleftrightarrow> c < 55296 \<or> (57343 < c \<and> c < 1114112)"



section \<open>The notifier\<close>

definition BASE_URL :: ustr where
  "BASE_URL = lit ''https://www.hanscnc.com/investorsreport/list.html''"

definition SOURCE_NAME :: ustr where
  "SOURCE_NAME = [22823, 26063, 25968, 25511, 45, 23450, 26399, 25253, 21578]"

text \<open>
  \<^verbatim>\<open>
  def feishu_sign(ts, secret):
      string_to_sign = f"{ts}\n{secret}".encode("utf-8")
      h = hmac.new(secret.encode("utf-8"), string_to_sign, digestmod=hashlib.sha256)
      return base64.b64encode(h.digest()).decode("utf-8")
  \<close>
\<close>

definition feishu_sign :: "ustr \<Rightarrow> ustr \<Rightarrow> error + ustr" where
  "feishu_sign ts secret =
     (case encode_utf8 (ts @ [10] @ secret) of
        Inl e \<Rightarrow> Inl e
      | Inr string_to_sign \<Rightarrow>
          (case encode_utf8 secret of
             Inl e \<Rightarrow> Inl e
           | Inr key \<Rightarrow> Inr (b64encode (hmac_sha256 key string_to_sign))))"

text \<open>\<^verbatim>\<open>str(n)\<close> for an integer: its decimal digits, with a minus sign when negative.\<close>

function str_nat :: "nat \<Rightarrow> ustr" where
  "str_nat n = (if n < 10 then [48 + n] else str_nat (n div 10) @ [48 + n mod 10])"
  by pat_completeness auto
termination
  by (relation "measure id") auto

declare str_nat.simps [simp del]

definition str_int :: "int \<Rightarrow> ustr" where
  "str_int i = (if i < 0 then 45 # str_nat (nat (- i)) else str_nat (nat i))"

text \<open>
  The JSON object that is posted, and the call of \<^verbatim>\<open>requests.post\<close>. The body is kept
  as the object, before \<^verbatim>\<open>json.dumps\<close>.
\<close>

record payload =
  msg_type :: ustr
  content_text :: ustr
  timestamp :: "ustr option"
  sign :: "ustr option"

record request =
  url :: ustr
  headers :: "(ustr \<times> ustr) list"
  data :: payload
  timeout :: nat

text \<open>
  The persisted state: the JSON object of \<^verbatim>\<open>data/state.json\<close>. Its key
  \<^verbatim>\<open>seen_hrefs\<close> holds a list of strings or is absent; \<open>others\<close> are the remaining
  keys, which the program never reads.
\<close>

record state =
  seen_hrefs :: "ustr list option"
  others :: "(ustr \<times> ustr) list"

text \<open>
  What a run does to the outside: a call of \<^verbatim>\<open>notify_feishu\<close>, a call of
  \<^verbatim>\<open>requests.post\<close>, a call of \<^verbatim>\<open>save_state\<close>, a printed line.
\<close>

datatype message =
  Initialized | Notify_failed error | Force_sent | No_force_items | No_new_items | Notified nat

datatype effect = Notify "item list" | Post request | Save state | Print message

text \<open>
  What the outside gives to a run: the environment variables, the state file (absent, or
  the result of \<^verbatim>\<open>json.load\<close>), the result of \<^verbatim>\<open>fetch_html\<close> once parsed, the clock
  \<^verbatim>\<open>int(time.time())\<close>, whether a post raises (\<^verbatim>\<open>requests.post\<close> or
  \<^verbatim>\<open>raise_for_status\<close>), whether writing the state file raises, and the order in which
  \<^verbatim>\<open>list\<close> enumerates a set.
\<close>

record world =
  environ :: "ustr \<rightharpoonup> ustr"
  state_file :: "(error + state) option"
  fetched :: "error + node"
  clock :: int
  post_raises :: "request \<Rightarrow> error option"
  write_raises :: "state \<Rightarrow> error option"
  set_order :: "ustr set \<Rightarrow> ustr list"

text \<open>\<^verbatim>\<open>os.getenv(key, default)\<close>.\<close>

definition getenv :: "world \<Rightarrow> ustr \<Rightarrow> ustr \<Rightarrow> ustr" where
  "getenv W k d = (case environ W k of None \<Rightarrow> d | Some v \<Rightarrow> v)"

text \<open>
  \<^verbatim>\<open>
  lines = [f"- {it['title']}...{it.get('date','')}...\n  {it['href']}" for it in items]
  content = f"{SOURCE_NAME} ...\n" + "\n".join(lines) + f"\n...{BASE_URL}"
  \<close>
  The two brackets around the date are U+FF08 and U+FF09.
\<close>

definition item_line :: "item \<Rightarrow> ustr" where
  "item_line it = lit ''- '' @ title it @ [65288] @ date it @ [65289] @ [10, 32, 32] @ href it"

definition content_header :: ustr where
  "content_header = SOURCE_NAME @ [32, 21457, 29616, 26032, 25253, 21578, 65306, 10]"

definition content_footer :: ustr where
  "content_footer = [10, 26469, 28304, 65306] @ BASE_URL"

definition content_of :: "item list \<Rightarrow> ustr" where
  "content_of items = content_header @ join [10] (map item_line items) @ content_footer"

text \<open>
  \<^verbatim>\<open>
  def notify_feishu(items):
      webhook = os.getenv("FEISHU_WEBHOOK_URL", "").strip()
      if not webhook:
          return
      secret = os.getenv("FEISHU_SECRET", "").strip()
      ...
      payload = {"msg_type": "text", "content": {"text": content}}
      ts = str(int(time.time()))
      headers = {"Content-Type": "application/json; charset=utf-8"}
      if secret:
          payload["timestamp"] = ts
          payload["sign"] = feishu_sign(ts, secret)
      resp = requests.post(webhook, headers=headers, data=json.dumps(payload), timeout=10)
      resp.raise_for_status()
  \<close>
  The result is the list of effects and the exception that leaves the function, if any.
\<close>

definition sign_payload :: "world \<Rightarrow> ustr \<Rightarrow> payload \<Rightarrow> error + payload" where
  "sign_payload W secret p =
     (let ts = str_int (clock W)
      in if secret \<noteq> []
         then (case feishu_sign ts secret of
                 Inl e \<Rightarrow> Inl e
               | Inr sg \<Rightarrow> Inr (p\<lparr>timestamp := Some ts, sign := Some sg\<rparr>))
         else Inr p)"

definition notify_feishu :: "world \<Rightarrow> item list \<Rightarrow> effect list \<times> error option" where
  "notify_feishu W items =
     (let webhook = strip (getenv W (lit ''FEISHU_WEBHOOK_URL'') [])
      in if webhook = [] then ([], None)
         else
           (let secret = strip (getenv W (lit ''FEISHU_SECRET'') []);
                p = \<lparr>msg_type = lit ''text'', content_text = content_of items,
                     timestamp = None, sign = None\<rparr>
            in case sign_payload W secret p of
                 Inl e \<Rightarrow> ([], Some e)
               | Inr p' \<Rightarrow>
                   (let req = \<lparr>url = webhook,
                                headers = [(lit ''Content-Type'',
                                            lit ''application/json; charset=utf-8'')],
                                data = p', timeout = 10\<rparr>
                    in ([Post req], post_raises W req))))"

section \<open>The run\<close>

text \<open>
  \<^verbatim>\<open>
  def load_state():
      if os.path.exists(STATE_PATH):
          with open(STATE_PATH, "r", encoding="utf-8") as f:
              return json.load(f)
      return {"seen_hrefs": []}
  \<close>
\<close>

definition load_state :: "world \<Rightarrow> error + state" where
  "load_state W =
     (case state_file W of None \<Rightarrow> Inr \<lparr>seen_hrefs = Some [], others = []\<rparr> | Some r \<Rightarrow> r)"

text \<open>\<^verbatim>\<open>save_state(state)\<close>: the call, and the exception of the file system if any.\<close>

definition save_state :: "world \<Rightarrow> state \<Rightarrow> effect list \<times> error option" where
  "save_state W st = ([Save st], write_raises W st)"

text \<open>\<^verbatim>\<open>state.get("seen_hrefs", [])\<close>.\<close>

definition seen_of :: "state \<Rightarrow> ustr list" where
  "seen_of st = (case seen_hrefs st of None \<Rightarrow> [] | Some hs \<Rightarrow> hs)"

text \<open>
  \<^verbatim>\<open>str(os.getenv("FORCE_NOTIFY", "")).lower() in {"1","true","yes"}\<close>. Only the
  letters A to Z are lowered: no other character becomes a letter of these three words.
\<close>

definition lower :: "ustr \<Rightarrow> ustr" where
  "lower s = map (\<lambda>c. if 65 \<le> c \<and> c \<le> 90 then c + 32 else c) s"

definition force_notify :: "world \<Rightarrow> bool" where
  "force_notify W \<longleftrightarrow>
     lower (getenv W (lit ''FORCE_NOTIFY'') []) \<in> {lit ''1'', lit ''true'', lit ''yes''}"

text \<open>
  \<^verbatim>\<open>
  try:
      notify_feishu(items)
  except Exception as e:
      print("Feishu notify failed:", e)
  \<close>
\<close>

definition try_notify :: "world \<Rightarrow> item list \<Rightarrow> effect list" where
  "try_notify W items =
     (case notify_feishu W items of
        (effs, None) \<Rightarrow> Notify items # effs
      | (effs, Some e) \<Rightarrow> Notify items # effs @ [Print (Notify_failed e)])"

text \<open>
  The three policies of \<^verbatim>\<open>main\<close>, each the body of one branch.
  \<^verbatim>\<open>
  if not seen and items and not force_notify:
      state["seen_hrefs"] = [it["href"] for it in items]
      save_state(state)
      print("Initialized state; no notifications sent.")
      return
  \<close>
\<close>

definition first_run :: "world \<Rightarrow> state \<Rightarrow> item list \<Rightarrow> effect list \<times> error option" where
  "first_run W st items =
     (case save_state W (st\<lparr>seen_hrefs := Some (map href items)\<rparr>) of
        (effs, Some e) \<Rightarrow> (effs, Some e)
      | (effs, None) \<Rightarrow> (effs @ [Print Initialized], None))"

text \<open>
  \<^verbatim>\<open>
  if force_notify:
      targets = items[:1] if items else []
      if targets:
          try: notify_feishu(targets)
          except Exception as e: print("Feishu notify failed:", e)
          print("Force-notify sent (state not changed).")
      else:
          print("No items available for force notify.")
      return
  \<close>
\<close>

definition forced_run :: "world \<Rightarrow> item list \<Rightarrow> effect list \<times> error option" where
  "forced_run W items =
     (let targets = (if items \<noteq> [] then take 1 items else [])
      in if targets \<noteq> [] then (try_notify W targets @ [Print Force_sent], None)
         else ([Print No_force_items], None))"

text \<open>
  \<^verbatim>\<open>
  try: notify_feishu(new_items)
  except Exception as e: print("Feishu notify failed:", e)
  state["seen_hrefs"] = list(seen.union([it["href"] for it in new_items]))
  save_state(state)
  print(f"Notified {len(new_items)} new items.")
  \<close>
\<close>

definition steady_run ::
  "world \<Rightarrow> state \<Rightarrow> ustr set \<Rightarrow> item list \<Rightarrow> effect list \<times> error option" where
  "steady_run W st seen new_items =
     (let effs = try_notify W new_items;
          st' = st\<lparr>seen_hrefs := Some (set_order W (seen \<union> set (map href new_items)))\<rparr>
      in case save_state W st' of
           (effs', Some e) \<Rightarrow> (effs @ effs', Some e)
         | (effs', None) \<Rightarrow> (effs @ effs' @ [Print (Notified (length new_items))], None))"

text \<open>
  \<^verbatim>\<open>
  def main():
      top_n = int(os.getenv("TOP_N", "20"))
      force_notify = str(os.getenv("FORCE_NOTIFY", "")).lower() in {"1","true","yes"}
      state = load_state()
      html = fetch_html(BASE_URL)
      items = extract_items(html, BASE_URL, top_n=top_n)
      seen = set(state.get("seen_hrefs", []))
      new_items = [it for it in items if it["href"] not in seen]
      if not seen and items and not force_notify: ...
      if force_notify: ...
      if not new_items:
          print("No new items.")
          return
      ...
  \<close>
  An exception of the first five lines ends the run before any effect.
\<close>

definition policy :: "world \<Rightarrow> state \<Rightarrow> item list \<Rightarrow> effect list \<times> error option" where
  "policy W st items =
     (let seen = set (seen_of st);
          new_items = filter (\<lambda>it. href it \<notin> seen) items
      in if seen = {} \<and> items \<noteq> [] \<and> \<not> force_notify W then first_run W st items
         else if force_notify W then forced_run W items
         else if new_items = [] then ([Print No_new_items], None)
         else steady_run W st seen new_items)"

definition main :: "pylib \<Rightarrow> world \<Rightarrow> effect list \<times> error option" where
  "main L W =
     (case int_of_str L (getenv W (lit ''TOP_N'') (lit ''20'')) of
        Inl e \<Rightarrow> ([], Some e)
      | Inr top_n \<Rightarrow>
          (case load_state W of
             Inl e \<Rightarrow> ([], Some e)
           | Inr st \<Rightarrow>
               (case fetched W of
                  Inl e \<Rightarrow> ([], Some e)
                | Inr soup \<Rightarrow>
                    (case extract_items L soup BASE_URL top_n of
                       Inl e \<Rightarrow> ([], Some e)
                     | Inr items \<Rightarrow> policy W st items))))"

section \<open>Reading the effects of a run\<close>

fun saved :: "effect \<Rightarrow> state list" where
  "saved (Save st) = [st]"
| "saved e = []"

fun notified :: "effect \<Rightarrow> item list list" where
  "notified (Notify items) = [items]"
| "notified e = []"

fun posted :: "effect \<Rightarrow> request list" where
  "posted (Post r) = [r]"
| "posted e = []"

text \<open>The states written, the calls of the notifier and the posts of a run, in order.\<close>

definition saves :: "effect list \<Rightarrow> state list" where
  "saves es = concat (map saved es)"

definition notifications :: "effect list \<Rightarrow> item list list" where
  "notifications es = concat (map notified es)"

definition posts :: "effect list \<Rightarrow> request list" where
  "posts es = concat (map posted es)"

text \<open>
  \<^verbatim>\<open>list(s)\<close> of a finite set \<open>s\<close> lists each member once, in an order that Python does
  not fix.
\<close>

definition enumerates :: "world \<Rightarrow> bool" where
  "enumerates W \<longleftrightarrow> (\<forall>S. finite S \<longrightarrow> set (set_order W S) = S \<and> distinct (set_order W S))"

section \<open>Example inputs\<close>

text \<open>
  A library for the examples. It agrees with Python on the arguments the examples use: a
  reference that starts with a slash replaces the path of the base URL, the characters 0
  to 9 are decimal digits, and \<^verbatim>\<open>int("20")\<close> is 20.
\<close>

definition demo_lib :: pylib where
  "demo_lib =
     \<lparr>urljoin = (\<lambda>b u. if take 1 u = lit ''/''
                         then Inr (lit ''https://www.hanscnc.com'' @ u) else Inr u),
      isdecimal = (\<lambda>c. 48 \<le> c \<and> c \<le> 57),
      int_of_str = (\<lambda>s. if s = lit ''20'' then Inr 20 else Inl ValueError)\<rparr>"

text \<open>
  A page with one report: a heading (the year 2024, the characters U+5E74 U+7B2C U+4E09
  U+5B63 U+5EA6 U+62A5 U+544A, a space and the date 2024-10-30) beside an anchor whose text
  is the download marker.
\<close>

definition heading_a :: ustr where
  "heading_a =
     lit ''2024'' @ [24180, 31532, 19977, 23395, 24230, 25253, 21578] @ lit '' 2024-10-30''"

definition doc_a :: node where
  "doc_a =
     Tag (lit ''[document]'') []
       [Tag (lit ''html'') []
          [Tag (lit ''body'') []
             [Tag (lit ''div'') []
                [Tag (lit ''h3'') [] [NavigableString heading_a],
                 Tag (lit ''a'') [(lit ''href'', lit ''/r/2024q3.pdf'')]
                   [NavigableString kw_download]]]]]"

definition item_a :: item where
  "item_a =
     \<lparr>title = heading_a, date = lit ''2024-10-30'',
      href = lit ''https://www.hanscnc.com/r/2024q3.pdf''\<rparr>"

text \<open>A first run: no state file, no variable set.\<close>

definition world_a :: world where
  "world_a =
     \<lparr>environ = Map.empty, state_file = None, fetched = Inr doc_a, clock = 1700000000,
      post_raises = (\<lambda>r. None), write_raises = (\<lambda>s. None),
      set_order = sorted_list_of_set\<rparr>"

text \<open>
  A later run: the state file holds one older reference, the webhook is set and the post
  fails.
\<close>

definition state_b :: state where
  "state_b = \<lparr>seen_hrefs = Some [lit ''https://www.hanscnc.com/r/2024q2.pdf''], others = []\<rparr>"

definition world_b :: world where
  "world_b =
     \<lparr>environ = [lit ''FEISHU_WEBHOOK_URL'' \<mapsto> lit ''https://open.feishu.cn/hook''],
      state_file = Some (Inr state_b), fetched = Inr doc_a, clock = 1700000000,
      post_raises = (\<lambda>r. Some RequestException), write_raises = (\<lambda>s. None),
      set_order = sorted_list_of_set\<rparr>"

text \<open>The same run with \<^verbatim>\<open>FORCE_NOTIFY=1\<close>.\<close>

definition world_f :: world where
  "world_f =
     world_b\<lparr>environ := [lit ''FEISHU_WEBHOOK_URL'' \<mapsto> lit ''https://open.feishu.cn/hook'',
                          lit ''FORCE_NOTIFY'' \<mapsto> lit ''1'']\<rparr>"

text \<open>A page with two reports.\<close>

definition heading_b :: ustr where
  "heading_b = lit ''2024'' @ [24180, 21322, 24180, 24230, 25253, 21578] @ lit '' 2024-08-20''"

definition doc_d :: node where
  "doc_d =
     Tag (lit ''[document]'') []
       [Tag (lit ''html'') []
          [Tag (lit ''body'') []
             [Tag (lit ''div'') []
                [Tag (lit ''h3'') [] [NavigableString heading_a],
                 Tag (lit ''a'') [(lit ''href'', lit ''/r/2024q3.pdf'')]
                   [NavigableString kw_download]],
              Tag (lit ''div'') []
                [Tag (lit ''h3'') [] [NavigableString heading_b],
                 Tag (lit ''a'') [(lit ''href'', lit ''/r/2024h1.pdf'')]
                   [NavigableString kw_download]]]]]"

text \<open>
  A page without the download marker: one heading whose text (2023 and the characters
  U+5E74 U+5EA6 U+62A5 U+544A) is inside an anchor.
\<close>

definition heading_c :: ustr where
  "heading_c = lit ''2023'' @ [24180, 24230, 25253, 21578]"

definition doc_c :: node where
  "doc_c =
     Tag (lit ''[document]'') []
       [Tag (lit ''html'') []
          [Tag (lit ''body'') []
             [Tag (lit ''h3'') []
                [Tag (lit ''a'') [(lit ''href'', lit ''/x.pdf'')] [NavigableString heading_c]]]]]"

definition item_c :: item where
  "item_c = \<lparr>title = heading_c, date = [], href = lit ''https://www.hanscnc.com/x.pdf''\<rparr>"





text \<open>
  A run whose secret is the one character U+DCFF, which is what \<^verbatim>\<open>os.getenv\<close> returns
  for a variable that holds the byte 0xFF.
\<close>

definition world_s :: world where
  "world_s = world_b\<lparr>environ := [lit ''FEISHU_WEBHOOK_URL'' \<mapsto> lit ''https://open.feishu.cn/hook'',
                                  lit ''FEISHU_SECRET'' \<mapsto> [56575]]\<rparr>"

section \<open>Reading effects, step by step\<close>

lemma saves_simps:
  "saves [] = []" "saves (e # es) = saved e @ saves es" "saves (xs @ ys) = saves xs @ saves ys"
  by (simp_all add: saves_def)

lemma notifications_simps:
  "notifications [] = []" "notifications (e # es) = notified e @ notifications es"
  "notifications (xs @ ys) = notifications xs @ notifications ys"
  by (simp_all add: notifications_def)

lemma posts_simps:
  "posts [] = []" "posts (e # es) = posted e @ posts es" "posts (xs @ ys) = posts xs @ posts ys"
  by (simp_all add: posts_def)

section \<open>Evaluation of the examples\<close>

lemmas eval_defs =
  lit_def isspace_def lstrip_def rstrip_def strip_def norm_text_def kw_download_def kw_report_def kw_quarter_def
  kw_half_year_def kw_year_def no_title_def or_else_def parent_of_def grandparent_of_def
  near_text_def is_title_def look_def found_def cand_names_def date_fallback_def
  title_fallback_def item_for_def anchors_def own_anchor_def fallback_href_def slice_to_def
  extract_items_def find_all_def find_all_limit_def find_all_in_def find_tag_def date_at_def
  BASE_URL_def Let_def

lemma extract_doc_a: "extract_items demo_lib doc_a BASE_URL 20 = Inr [item_a]"
  by (simp add: eval_defs demo_lib_def doc_a_def item_a_def heading_a_def)

lemma top_n_world_a: "int_of_str demo_lib (getenv world_a (lit ''TOP_N'') (lit ''20'')) = Inr 20"
  by (simp add: demo_lib_def getenv_def world_a_def lit_def)

lemma top_n_world_b: "int_of_str demo_lib (getenv world_b (lit ''TOP_N'') (lit ''20'')) = Inr 20"
  by (simp add: demo_lib_def getenv_def world_b_def lit_def)

lemma top_n_world_f: "int_of_str demo_lib (getenv world_f (lit ''TOP_N'') (lit ''20'')) = Inr 20"
  by (simp add: demo_lib_def getenv_def world_f_def world_b_def lit_def)

lemma force_world_a: "\<not> force_notify world_a"
  by (simp add: force_notify_def getenv_def world_a_def lower_def lit_def)

lemma force_world_b: "\<not> force_notify world_b"
  by (simp add: force_notify_def getenv_def world_b_def lower_def lit_def)

lemma force_world_f: "force_notify world_f"
  by (simp add: force_notify_def getenv_def world_f_def world_b_def lower_def lit_def)

lemma load_world_a: "load_state world_a = Inr \<lparr>seen_hrefs = Some [], others = []\<rparr>"
  by (simp add: load_state_def world_a_def)

lemma load_world_b: "load_state world_b = Inr state_b"
  by (simp add: load_state_def world_b_def)

lemma load_world_f: "load_state world_f = Inr state_b"
  by (simp add: load_state_def world_f_def world_b_def)

lemma fetched_worlds:
  "fetched world_a = Inr doc_a" "fetched world_b = Inr doc_a" "fetched world_f = Inr doc_a"
  by (simp_all add: world_a_def world_b_def world_f_def)

lemma write_world_a: "write_raises world_a st = None"
  by (simp add: world_a_def)

lemma enumerates_world_b: "enumerates world_b"
  by (simp add: enumerates_def world_b_def)

lemma new_items_b: "filter (\<lambda>it. href it \<notin> set (seen_of state_b)) [item_a] = [item_a]"
  by (simp add: seen_of_def state_b_def item_a_def lit_def)

lemma seen_state_b: "set (seen_of state_b) \<noteq> {}"
  by (simp add: seen_of_def state_b_def)

lemma enumerates_sorted: "set_order W = sorted_list_of_set \<Longrightarrow> enumerates W"
  by (simp add: enumerates_def)

lemma extract_doc_c: "extract_items demo_lib doc_c BASE_URL 20 = Inr [item_c, item_c]"
  by (simp add: eval_defs demo_lib_def doc_c_def item_c_def heading_c_def)


lemma extract_doc_d:
  "extract_items demo_lib doc_d BASE_URL 1 = Inr [item_a]"
  by (simp add: eval_defs demo_lib_def doc_d_def item_a_def heading_a_def heading_b_def)

lemma lit_Cons_nonempty: "lit (c # cs) \<noteq> []"
  by (simp add: lit_def)

lemma webhook_world_b:
  "strip (getenv world_b (lit ''FEISHU_WEBHOOK_URL'') []) = lit ''https://open.feishu.cn/hook''"
  by (simp add: getenv_def world_b_def lit_def strip_def lstrip_def rstrip_def isspace_def)

lemma secret_world_b: "strip (getenv world_b (lit ''FEISHU_SECRET'') []) = []"
  by (simp add: getenv_def world_b_def lit_def strip_def lstrip_def rstrip_def)

lemma post_world_b: "post_raises world_b req = Some RequestException"
  by (simp add: world_b_def)

lemma webhook_world_s:
  "strip (getenv world_s (lit ''FEISHU_WEBHOOK_URL'') []) = lit ''https://open.feishu.cn/hook''"
  by (simp add: getenv_def world_s_def lit_def strip_def lstrip_def rstrip_def isspace_def)

lemma secret_world_s: "strip (getenv world_s (lit ''FEISHU_SECRET'') []) = [56575]"
  by (simp add: getenv_def world_s_def lit_def strip_def lstrip_def rstrip_def isspace_def)

section \<open>Properties of the normaliser\<close>




lemma re_sub_ws_Nil_iff: "re_sub_ws s = [] \<longleftrightarrow> s = []"
  by (cases s) simp_all












section \<open>Properties of the extraction\<close>

lemma length_slice_to: "0 \<le> n \<Longrightarrow> int (length (slice_to xs n)) \<le> n"
  by (simp add: slice_to_def)

text \<open>
  C7. For a bound \<open>n\<close> that is not negative, the list that \<open>extract_items\<close> returns has at
  most \<open>n\<close> items.
\<close>

theorem extract_items_cap:
  assumes "0 \<le> n" and "extract_items L soup base_url n = Inr items"
  shows "int (length items) \<le> n"
  using assms length_slice_to [of n]
  by (auto simp: extract_items_def split: sum.splits if_splits)

theorem extract_items_cap_witness:
  "extract_items demo_lib doc_d BASE_URL 1 = Inr [item_a] \<and> int (length [item_a]) \<le> 1"
  using extract_items_cap [of 1 demo_lib doc_d BASE_URL "[item_a]"] extract_doc_d
  by simp

text \<open>
  The loop over the anchors keeps one item for each resolved reference, so the items it
  returns have pairwise distinct references.
\<close>

lemma href_item_for: "href (item_for L soup e h) = h"
  by (cases e) (simp add: item_for_def Let_def)

lemma anchors_loop_distinct:
  "anchors_loop L soup base_url es items seen = Inr r \<Longrightarrow>
   distinct (map href items) \<Longrightarrow> href ` set items \<subseteq> seen \<Longrightarrow> distinct (map href r)"
proof (induction es arbitrary: items seen)
  case Nil
  then show ?case by simp
next
  case (Cons e es)
  let ?h = "or_else (attr_get (fst e) (lit ''href'')) []"
  show ?case
  proof (cases "?h = []")
    case True
    then show ?thesis using Cons by simp
  next
    case False
    then obtain h' where h': "urljoin L base_url ?h = Inr h'"
      using Cons.prems(1) by (cases "urljoin L base_url ?h") (simp_all add: Let_def)
    show ?thesis
    proof (cases "h' \<in> seen")
      case True
      then show ?thesis using Cons False h' by (simp add: Let_def)
    next
      case new: False
      let ?items = "items @ [item_for L soup e h']"
      have "anchors_loop L soup base_url es ?items (insert h' seen) = Inr r"
        using Cons.prems(1) False h' new by (simp add: Let_def)
      moreover have "distinct (map href ?items)"
        using Cons.prems(2,3) new by (auto simp: href_item_for)
      moreover have "href ` set ?items \<subseteq> insert h' seen"
        using Cons.prems(3) by (auto simp: href_item_for)
      ultimately show ?thesis by (rule Cons.IH)
    qed
  qed
qed

lemma distinct_slice_to: "distinct (map f xs) \<Longrightarrow> distinct (map f (slice_to xs n))"
  by (simp add: slice_to_def distinct_take take_map [symmetric])

lemma primary_hrefs_distinct:
  assumes "anchors_loop L soup base_url (anchors soup) [] {} = Inr items" and "items \<noteq> []"
  shows "extract_items L soup base_url n = Inr (slice_to items n) \<and>
         distinct (map href (slice_to items n))"
  using assms anchors_loop_distinct [OF assms(1)]
  by (simp add: extract_items_def distinct_slice_to)

text \<open>
  C1. The scan of the whole document does not look at the references it has already used.
  On the page \<open>doc_c\<close> the heading and the anchor inside it both match, and
  \<open>extract_items\<close> returns two items with the same reference.
\<close>

theorem fallback_duplicate_hrefs:
  "extract_items demo_lib doc_c BASE_URL 20 = Inr [item_c, item_c] \<and>
   \<not> distinct (map href [item_c, item_c])"
  by (simp add: extract_doc_c)











section \<open>Properties of the notifier\<close>

lemma utf8_char_encodable: "encodable c \<Longrightarrow> \<exists>bs. utf8_char c = Inr bs"
  by (auto simp: encodable_def utf8_char_def)

lemma encode_utf8_returns: "\<forall>c \<in> set s. encodable c \<Longrightarrow> \<exists>bs. encode_utf8 s = Inr bs"
proof (induction s)
  case Nil
  then show ?case by simp
next
  case (Cons c s)
  then obtain bs rest where "utf8_char c = Inr bs" "encode_utf8 s = Inr rest"
    using utf8_char_encodable [of c] by auto
  then show ?case by simp
qed

lemma encode_utf8_surrogate:
  "c \<in> set s \<Longrightarrow> \<not> encodable c \<Longrightarrow> encode_utf8 s = Inl UnicodeEncodeError"
proof (induction s)
  case Nil
  then show ?case by simp
next
  case (Cons x s)
  show ?case
  proof (cases "utf8_char x")
    case (Inl e)
    then have "e = UnicodeEncodeError"
      by (auto simp: utf8_char_def split: if_splits)
    then show ?thesis using Inl by simp
  next
    case (Inr bs)
    then have "encodable x"
      by (auto simp: utf8_char_def encodable_def split: if_splits)
    then have "encode_utf8 s = Inl UnicodeEncodeError" using Cons by auto
    then show ?thesis using Inr by simp
  qed
qed
















lemma sign_of_encodable:
  assumes "\<forall>c \<in> set ts. encodable c" and "\<forall>c \<in> set secret. encodable c"
  shows "\<exists>key msg. feishu_sign ts secret = Inr (b64encode (hmac_sha256 key msg))"
proof -
  have "\<forall>c \<in> set (ts @ [10] @ secret). encodable c"
    using assms by (auto simp: encodable_def)
  then obtain msg where "encode_utf8 (ts @ [10] @ secret) = Inr msg"
    using encode_utf8_returns by blast
  moreover obtain key where "encode_utf8 secret = Inr key"
    using assms(2) encode_utf8_returns by blast
  ultimately show ?thesis by (auto simp: feishu_sign_def)
qed







text \<open>
  C10, as the code has it. \<open>notify_feishu\<close> does nothing exactly when no webhook is
  configured, whatever the items. With a webhook, and a secret that is absent or has no
  surrogate, the call for an empty list of items posts a request whose text is the header
  with the source name followed by the footer with the source URL, with no item line.
\<close>

lemma str_nat_encodable: "\<forall>c \<in> set (str_nat n). encodable c"
proof (induction n rule: str_nat.induct)
  case (1 n)
  show ?case
  proof (cases "n < 10")
    case True
    then show ?thesis by (simp add: str_nat.simps [of n] encodable_def)
  next
    case False
    then have "\<forall>c \<in> set (str_nat (n div 10)). encodable c" using 1 by simp
    moreover have "n mod 10 < 10" by simp
    then have "encodable (48 + n mod 10)" unfolding encodable_def by linarith
    ultimately show ?thesis using False by (simp add: str_nat.simps [of n])
  qed
qed

lemma str_int_encodable: "\<forall>c \<in> set (str_int i). encodable c"
  using str_nat_encodable by (simp add: str_int_def encodable_def)

lemma sign_payload_returns:
  assumes "\<forall>c \<in> set secret. encodable c"
  shows "\<exists>p'. sign_payload W secret p = Inr p' \<and> content_text p' = content_text p"
proof (cases "secret = []")
  case True
  then show ?thesis by (simp add: sign_payload_def)
next
  case False
  obtain key msg where "feishu_sign (str_int (clock W)) secret = Inr (b64encode (hmac_sha256 key msg))"
    using sign_of_encodable [OF str_int_encodable assms] by blast
  then show ?thesis using False by (simp add: sign_payload_def)
qed

lemma content_of_Nil: "content_of [] = content_header @ content_footer"
  by (simp add: content_of_def)

theorem notify_empty_items:
  "(\<forall>items. (notify_feishu W items = ([], None)) =
              (strip (getenv W (lit ''FEISHU_WEBHOOK_URL'') []) = [])) \<and>
   (strip (getenv W (lit ''FEISHU_WEBHOOK_URL'') []) \<noteq> [] \<longrightarrow>
    (\<forall>c \<in> set (strip (getenv W (lit ''FEISHU_SECRET'') [])). encodable c) \<longrightarrow>
    (\<exists>req. notify_feishu W [] = ([Post req], post_raises W req) \<and>
           url req = strip (getenv W (lit ''FEISHU_WEBHOOK_URL'') []) \<and>
           content_text (data req) = content_header @ content_footer))"
proof (intro conjI allI impI)
  fix items
  show "(notify_feishu W items = ([], None)) =
        (strip (getenv W (lit ''FEISHU_WEBHOOK_URL'') []) = [])"
    by (auto simp: notify_feishu_def Let_def split: sum.splits)
next
  let ?p = "\<lparr>msg_type = lit ''text'', content_text = content_of [], timestamp = None, sign = None\<rparr>"
  assume w: "strip (getenv W (lit ''FEISHU_WEBHOOK_URL'') []) \<noteq> []"
    and s: "\<forall>c \<in> set (strip (getenv W (lit ''FEISHU_SECRET'') [])). encodable c"
  obtain p' where p': "sign_payload W (strip (getenv W (lit ''FEISHU_SECRET'') [])) ?p = Inr p'"
      "content_text p' = content_text ?p"
    using sign_payload_returns [OF s] by blast
  then show "\<exists>req. notify_feishu W [] = ([Post req], post_raises W req) \<and>
           url req = strip (getenv W (lit ''FEISHU_WEBHOOK_URL'') []) \<and>
           content_text (data req) = content_header @ content_footer"
    using w by (simp add: notify_feishu_def Let_def content_of_Nil)
qed

theorem notify_empty_items_witness:
  "\<exists>req. notify_feishu world_b [] = ([Post req], Some RequestException) \<and>
         url req = lit ''https://open.feishu.cn/hook'' \<and>
         content_text (data req) = content_header @ content_footer"
  using notify_empty_items [of world_b]
  by (simp add: webhook_world_b secret_world_b post_world_b lit_Cons_nonempty)

text \<open>
  C10, as the claim states it, fails: with a webhook and a secret that cannot be encoded,
  signing raises before the post, and nothing is posted.
\<close>

lemma sign_surrogate: "feishu_sign ts [56575] = Inl UnicodeEncodeError"
  using encode_utf8_surrogate [of 56575 "ts @ [10] @ [56575]"]
  by (simp add: feishu_sign_def encodable_def)

theorem notify_unsigned_counterexample:
  "strip (getenv world_s (lit ''FEISHU_WEBHOOK_URL'') []) \<noteq> [] \<and>
   notify_feishu world_s [] = ([], Some UnicodeEncodeError) \<and>
   posts (fst (notify_feishu world_s [])) = []"
  by (simp add: notify_feishu_def Let_def webhook_world_s secret_world_s sign_payload_def
        sign_surrogate posts_simps lit_Cons_nonempty)

section \<open>Properties of the run\<close>

lemma notifications_try_notify: "notifications (try_notify W items) = [items]"
  by (cases "notify_feishu W items"; cases "snd (notify_feishu W items)")
     (auto simp: try_notify_def notifications_def notify_feishu_def Let_def
           split: sum.splits if_splits option.splits)

lemma saves_try_notify: "saves (try_notify W items) = []"
  by (cases "notify_feishu W items"; cases "snd (notify_feishu W items)")
     (auto simp: try_notify_def saves_def notify_feishu_def Let_def
           split: sum.splits if_splits option.splits)

lemma seen_of_simps:
  "seen_of (st\<lparr>seen_hrefs := Some hs\<rparr>) = hs" "others (st\<lparr>seen_hrefs := x\<rparr>) = others st"
  by (simp_all add: seen_of_def)

lemma main_policy:
  assumes "int_of_str L (getenv W (lit ''TOP_N'') (lit ''20'')) = Inr n"
    and "load_state W = Inr st" and "fetched W = Inr soup"
    and "extract_items L soup BASE_URL n = Inr items"
  shows "main L W = policy W st items"
  using assms by (simp add: main_def)

lemma first_run_effects:
  "saves (fst (first_run W st items)) = [st\<lparr>seen_hrefs := Some (map href items)\<rparr>] \<and>
   notifications (fst (first_run W st items)) = [] \<and>
   posts (fst (first_run W st items)) = [] \<and>
   snd (first_run W st items) = write_raises W (st\<lparr>seen_hrefs := Some (map href items)\<rparr>)"
  by (simp add: first_run_def save_state_def saves_simps notifications_simps posts_simps
           split: option.splits)

lemma forced_run_effects:
  "saves (fst (forced_run W items)) = [] \<and>
   notifications (fst (forced_run W items)) = (if items = [] then [] else [take 1 items]) \<and>
   snd (forced_run W items) = None"
  by (simp add: forced_run_def Let_def saves_simps notifications_simps saves_try_notify
        notifications_try_notify)

lemma forced_policy: "force_notify W \<Longrightarrow> policy W st items = forced_run W items"
  by (simp add: policy_def Let_def)

lemma steady_run_effects:
  "saves (fst (steady_run W st seen new_items)) =
     [st\<lparr>seen_hrefs := Some (set_order W (seen \<union> set (map href new_items)))\<rparr>] \<and>
   notifications (fst (steady_run W st seen new_items)) = [new_items]"
  by (simp add: steady_run_def Let_def save_state_def saves_simps notifications_simps
        saves_try_notify notifications_try_notify split: option.splits)

text \<open>
  C2. A run that loads an empty seen-set, extracts at least one item and is not forced
  writes the state once, with exactly the references of all extracted items as
  \<open>seen_hrefs\<close>; it never calls the notifier and posts nothing; it returns, with the
  exception of the file system if the write raised one.
\<close>

theorem first_run_suppression:
  assumes "int_of_str L (getenv W (lit ''TOP_N'') (lit ''20'')) = Inr n"
    and "load_state W = Inr st" and "fetched W = Inr soup"
    and "extract_items L soup BASE_URL n = Inr items"
    and "set (seen_of st) = {}" and "items \<noteq> []" and "\<not> force_notify W"
  shows "saves (fst (main L W)) = [st\<lparr>seen_hrefs := Some (map href items)\<rparr>] \<and>
         set (seen_of (st\<lparr>seen_hrefs := Some (map href items)\<rparr>)) = href ` set items \<and>
         notifications (fst (main L W)) = [] \<and> posts (fst (main L W)) = [] \<and>
         snd (main L W) = write_raises W (st\<lparr>seen_hrefs := Some (map href items)\<rparr>)"
proof -
  have "main L W = first_run W st items"
    using assms by (simp add: main_policy policy_def Let_def)
  then show ?thesis
    using first_run_effects [of W st items] by (simp add: seen_of_def)
qed

theorem first_run_suppression_witness:
  "saves (fst (main demo_lib world_a)) = [\<lparr>seen_hrefs = Some [href item_a], others = []\<rparr>] \<and>
   notifications (fst (main demo_lib world_a)) = [] \<and>
   posts (fst (main demo_lib world_a)) = [] \<and>
   snd (main demo_lib world_a) = None"
  using first_run_suppression [of demo_lib world_a 20 "\<lparr>seen_hrefs = Some [], others = []\<rparr>"
      doc_a "[item_a]"]
  by (simp add: top_n_world_a extract_doc_a force_world_a load_world_a fetched_worlds
        write_world_a seen_of_def)

text \<open>
  C3. A forced run never writes the state, whatever the loaded state, the extracted items
  and the outcome of the notification. It calls the notifier at most once, and when the
  extraction returned, the call is for the first extracted item alone (and there is no call
  when nothing was extracted).
\<close>

theorem force_notify_isolation:
  assumes "force_notify W"
  shows "saves (fst (main L W)) = [] \<and>
         length (notifications (fst (main L W))) \<le> 1 \<and>
         (\<forall>n st soup items.
            int_of_str L (getenv W (lit ''TOP_N'') (lit ''20'')) = Inr n \<longrightarrow>
            load_state W = Inr st \<longrightarrow> fetched W = Inr soup \<longrightarrow>
            extract_items L soup BASE_URL n = Inr items \<longrightarrow>
            notifications (fst (main L W)) = (if items = [] then [] else [take 1 items]))"
  using assms forced_run_effects
  by (auto simp: main_def forced_policy saves_simps notifications_simps split: sum.splits)

theorem force_notify_isolation_witness:
  "saves (fst (main demo_lib world_f)) = [] \<and>
   notifications (fst (main demo_lib world_f)) = [[item_a]]"
  using force_notify_isolation [of world_f demo_lib, OF force_world_f]
  by (simp add: top_n_world_f extract_doc_a load_world_f fetched_worlds)

text \<open>
  C4. In a run that is neither forced nor the first one and that finds new items, the
  notifier is called once with the new items, and then, whatever the notifier did (it
  returned, or it raised and the exception was caught), the state is written once with a
  seen-set equal to the loaded one united with the references of the new items.
\<close>

theorem steady_state_persists:
  assumes "int_of_str L (getenv W (lit ''TOP_N'') (lit ''20'')) = Inr n"
    and "load_state W = Inr st" and "fetched W = Inr soup"
    and "extract_items L soup BASE_URL n = Inr items"
    and "\<not> force_notify W" and "\<not> (set (seen_of st) = {} \<and> items \<noteq> [])"
    and "new_items = filter (\<lambda>it. href it \<notin> set (seen_of st)) items"
    and "new_items \<noteq> []" and "enumerates W"
  shows "notifications (fst (main L W)) = [new_items] \<and>
         (\<exists>st'. saves (fst (main L W)) = [st'] \<and> others st' = others st \<and>
                set (seen_of st') = set (seen_of st) \<union> href ` set new_items)"
proof -
  have "\<not> (set (seen_of st) = {} \<and> items \<noteq> [] \<and> \<not> force_notify W)"
    using assms(6) by blast
  then have "policy W st items = steady_run W st (set (seen_of st)) new_items"
    using assms(5,7,8) by (simp only: policy_def Let_def if_False)
  then have "main L W = steady_run W st (set (seen_of st)) new_items"
    using assms(1-4) by (simp add: main_policy)
  moreover have "set (set_order W (set (seen_of st) \<union> set (map href new_items))) =
      set (seen_of st) \<union> href ` set new_items"
    using \<open>enumerates W\<close> by (simp add: enumerates_def)
  ultimately show ?thesis
    using steady_run_effects [of W st "set (seen_of st)" new_items]
    by (simp add: seen_of_simps)
qed

theorem steady_state_persists_witness:
  "notifications (fst (main demo_lib world_b)) = [[item_a]] \<and>
   (\<exists>st'. saves (fst (main demo_lib world_b)) = [st'] \<and> others st' = others state_b \<and>
          set (seen_of st') = set (seen_of state_b) \<union> href ` set [item_a])"
proof -
  have a: "\<not> (set (seen_of state_b) = {} \<and> [item_a] \<noteq> [])"
    using seen_state_b by simp
  have b: "[item_a] \<noteq> []"
    by simp
  show ?thesis
    by (rule steady_state_persists [OF top_n_world_b load_world_b fetched_worlds(2)
          extract_doc_a force_world_b a new_items_b [symmetric] b enumerates_world_b])
qed

lemma fresh_item_a: "href item_a \<notin> set (seen_of state_b)"
  by (simp add: seen_of_def state_b_def item_a_def lit_def)

lemma main_world_b:
  "main demo_lib world_b = steady_run world_b state_b (set (seen_of state_b)) [item_a]"
proof -
  have "main demo_lib world_b = policy world_b state_b [item_a]"
    by (rule main_policy [OF top_n_world_b load_world_b fetched_worlds(2) extract_doc_a])
  then show ?thesis
    using seen_state_b by (simp add: policy_def Let_def force_world_b fresh_item_a)
qed

text \<open>
  C5. Every state that a run writes holds every reference of the state the run loaded: the
  persisted seen-set only grows. (A forced run writes nothing, so the statement needs no
  condition on the force flag.)
\<close>

theorem seen_set_monotone:
  assumes "load_state W = Inr st" and "enumerates W"
    and "st' \<in> set (saves (fst (main L W)))"
  shows "set (seen_of st) \<subseteq> set (seen_of st')"
proof (cases "int_of_str L (getenv W (lit ''TOP_N'') (lit ''20''))")
  case (Inl e)
  then show ?thesis using assms by (simp add: main_def saves_simps)
next
  case top: (Inr n)
  show ?thesis
  proof (cases "fetched W")
    case (Inl e)
    then show ?thesis using assms top by (simp add: main_def saves_simps)
  next
    case soup: (Inr soup)
    show ?thesis
    proof (cases "extract_items L soup BASE_URL n")
      case (Inl e)
      then show ?thesis using assms top soup by (simp add: main_def saves_simps)
    next
      case (Inr items)
      let ?new = "filter (\<lambda>it. href it \<notin> set (seen_of st)) items"
      have m: "main L W = policy W st items"
        using assms top soup Inr by (simp add: main_policy)
      have ord: "set (set_order W (set (seen_of st) \<union> set (map href ?new))) =
          set (seen_of st) \<union> href ` set ?new"
        using \<open>enumerates W\<close> by (simp add: enumerates_def)
      consider (first) "set (seen_of st) = {} \<and> items \<noteq> [] \<and> \<not> force_notify W"
        | (forced) "force_notify W"
        | (none) "\<not> (set (seen_of st) = {} \<and> items \<noteq> []) \<and> \<not> force_notify W \<and> ?new = []"
        | (steady) "\<not> (set (seen_of st) = {} \<and> items \<noteq> []) \<and> \<not> force_notify W \<and> ?new \<noteq> []"
        by blast
      then show ?thesis
      proof cases
        case first
        then show ?thesis by simp
      next
        case forced
        then show ?thesis
          using assms(3) m forced_run_effects [of W items] by (simp add: forced_policy)
      next
        case none
        then have "\<not> (set (seen_of st) = {} \<and> items \<noteq> [] \<and> \<not> force_notify W)"
          by blast
        then have "policy W st items = ([Print No_new_items], None)"
          using none by (auto simp: policy_def Let_def)
        then show ?thesis
          using assms(3) m by (simp add: saves_simps)
      next
        case steady
        then have "\<not> (set (seen_of st) = {} \<and> items \<noteq> [] \<and> \<not> force_notify W)"
          by blast
        then have "policy W st items = steady_run W st (set (seen_of st)) ?new"
          using steady by (simp only: policy_def Let_def if_False)
        then have "main L W = steady_run W st (set (seen_of st)) ?new"
          using m by simp
        then show ?thesis
          using assms(3) ord steady_run_effects [of W st "set (seen_of st)" ?new]
          by (auto simp: seen_of_simps)
      qed
    qed
  qed
qed

theorem seen_set_monotone_witness:
  "\<exists>st'. st' \<in> set (saves (fst (main demo_lib world_b))) \<and>
         set (seen_of state_b) \<subseteq> set (seen_of st')"
proof -
  let ?st = "state_b\<lparr>seen_hrefs :=
      Some (set_order world_b (set (seen_of state_b) \<union> set (map href [item_a])))\<rparr>"
  have m: "?st \<in> set (saves (fst (main demo_lib world_b)))"
    using steady_run_effects [of world_b state_b "set (seen_of state_b)" "[item_a]"]
    by (simp only: main_world_b list.set insertI1)
  from seen_set_monotone [OF load_world_b enumerates_world_b m] m
  show ?thesis by blast
qed

end
